theory Spec2Isabelle
  imports Complex_Main "HOL-Library.Word"
begin

section \<open>The client of the connection cache (client.go)\<close>

text \<open>
  The embedding follows \<^verbatim>\<open>client.go\<close>. A \<^verbatim>\<open>*Resource\<close> is an address into an
  explicit heap, so that the Resource the cache holds and the Resource a caller holds are
  the same object. Everything the client does to the outside (dialling, closing a
  connection handle, persisting descriptors, invoking a method) is appended to a trace;
  the outside's answers are functions of the trace so far, passed as a record of
  collaborators. The \<^verbatim>\<open>context.Context\<close> argument is handed on to the collaborators
  unchanged and the log line of \<^verbatim>\<open>Invoke\<close> has no effect on the client; both are left
  out. A slice whose nil-ness nothing observes is the list of its elements.
\<close>

subsection \<open>Data\<close>

text \<open>\<^verbatim>\<open>time.Duration\<close> is an \<^verbatim>\<open>int64\<close> of nanoseconds; so is \<^verbatim>\<open>int\<close> on the
  64-bit platforms the program is built for.\<close>

type_synonym Duration = "64 word"

definition Second :: Duration where
  "Second = 1000000000"

definition Minute :: Duration where
  "Minute = 60 * Second"

text \<open>A Go \<^verbatim>\<open>error\<close> value. The client only passes errors on.\<close>

datatype error = Error string

text \<open>A slice whose nil-ness is observable (\<^verbatim>\<open>reflect.DeepEqual\<close> tells a nil slice
  from an empty one) is an optional list: \<open>None\<close> is nil.\<close>

record Proto =
  Name :: string
  Content :: "8 word list option"

datatype DialOption =
    WithKeepaliveParams real
  | WithAuthority string

text \<open>Modelled from the spec: the declarations of \<^verbatim>\<open>ConnStore\<close> and of its entries are
  missing. A CacheEntry holds its Resource (here the address of it) and its expiry (\<open>None\<close>:
  never swept); the store holds the entries and, once the sweep is started, its interval.\<close>

record connection =
  resource :: nat
  expired :: "int option"

record ConnStore =
  conn :: "(string \<times> connection) list"
  gcInterval :: "Duration option"

record Client =
  KeepAlive :: real
  activeConn :: ConnStore
  maxLifeConn :: Duration
  headers :: "string list"
  reflectHeaders :: "string list"
  authority :: string
  insecure :: bool
  cacert :: string
  cert :: string
  key :: string
  serverName :: string
  isUnixSocket :: "bool option"

text \<open>The declaration of \<^verbatim>\<open>Resource\<close> is missing; these are the fields that
  \<^verbatim>\<open>client.go\<close> reads and writes. The header list of a Resource is \<open>rheaders\<close> (the
  source's \<^verbatim>\<open>headers\<close>, which is also the name of a field of \<^verbatim>\<open>Client\<close>). The
  connection handle is the number of the dial that made it.\<close>

record 'md Resource =
  md :: 'md
  clientConn :: nat
  rheaders :: "string list"
  protos :: "Proto list option"

datatype 'creds event =
    EvDial string string "'creds option" "DialOption list"
  | EvClose nat
  | EvAddProtos nat "Proto list option"
  | EvInvoke nat string string

record ('md, 'creds) World =
  heap :: "nat \<Rightarrow> 'md Resource"
  nextAddr :: nat
  nextConn :: nat
  trace :: "'creds event list"
  clock :: int

text \<open>The collaborators: the functions of \<^verbatim>\<open>grpcurl\<close> and of the transport that the
  client calls, and the methods of \<^verbatim>\<open>Resource\<close> it delegates to.\<close>

record ('md, 'creds) collab =
  MetadataFromHeaders :: "string list \<Rightarrow> 'md"
  ClientTransportCredentials :: "bool \<Rightarrow> string \<Rightarrow> string \<Rightarrow> string \<Rightarrow> error + 'creds"
  OverrideServerName :: "'creds \<Rightarrow> string \<Rightarrow> error + 'creds"
  BlockingDial :: "'creds event list \<Rightarrow> string \<Rightarrow> string \<Rightarrow> 'creds option \<Rightarrow> DialOption list \<Rightarrow> error option"
  connFailed :: "'creds event list \<Rightarrow> nat \<Rightarrow> bool"
  persistProtos :: "'creds event list \<Rightarrow> nat \<Rightarrow> Proto list option \<Rightarrow> error option"
  ResourceInvoke :: "'creds event list \<Rightarrow> 'md Resource \<Rightarrow> string \<Rightarrow> string \<Rightarrow> string \<times> Duration \<times> error option"

subsection \<open>Headers\<close>

definition SetHeaders :: "string list \<Rightarrow> Client \<Rightarrow> Client" where
  "SetHeaders hs g = g\<lparr>headers := hs\<rparr>"

definition AddHeaders :: "string list \<Rightarrow> Client \<Rightarrow> Client" where
  "AddHeaders hs g = g\<lparr>headers := headers g @ hs\<rparr>"

definition ClearHeaders :: "string list \<Rightarrow> Client \<Rightarrow> Client" where
  "ClearHeaders hs g = g\<lparr>headers := []\<rparr>"

subsection \<open>The connection store\<close>

text \<open>
  The methods of \<^verbatim>\<open>ConnStore\<close> are called by \<^verbatim>\<open>client.go\<close> and defined in a file
  that is not among the sources; each is modelled from the contract of the ConnectionCache
  in the specification. The store is an association list from endpoints to entries, with at
  most one entry per endpoint.
\<close>

text \<open>Modelled from the spec: \<^verbatim>\<open>NewConnectionStore\<close> is missing; a new store holds no entry
  and runs no sweep.\<close>

definition NewConnectionStore :: ConnStore where
  "NewConnectionStore = \<lparr>conn = [], gcInterval = None\<rparr>"

text \<open>Modelled from the spec: \<^verbatim>\<open>StartGC\<close> is missing; \<open>StartSweep(interval)\<close> launches
  the background sweep, which the store records by its interval.\<close>

definition StartGC :: "Duration \<Rightarrow> ConnStore \<Rightarrow> ConnStore" where
  "StartGC interval s = s\<lparr>gcInterval := Some interval\<rparr>"

text \<open>Modelled from the spec: \<^verbatim>\<open>getConnection\<close> is missing; \<open>Lookup(endpoint)\<close> is a read
  that gives the Resource of the entry, if there is one, and changes nothing.\<close>

definition getConnection :: "ConnStore \<Rightarrow> string \<Rightarrow> nat option" where
  "getConnection s host = map_option resource (map_of (conn s) host)"

text \<open>Modelled from the spec: \<^verbatim>\<open>addConnection\<close> is missing; \<open>Insert(endpoint, resource,
  maxLifetime)\<close> sets the expiry to now plus the lifetime, and an entry inserted with a
  non-positive lifetime never expires through the sweep. The new entry takes the place of any
  entry of the same endpoint.\<close>

definition expiry :: "int \<Rightarrow> Duration \<Rightarrow> int option" where
  "expiry now ttl = (if sint ttl \<le> 0 then None else Some (now + sint ttl))"

definition addConnection :: "string \<Rightarrow> nat \<Rightarrow> Duration \<Rightarrow> int \<Rightarrow> ConnStore \<Rightarrow> ConnStore" where
  "addConnection host a ttl now s =
     s\<lparr>conn := (host, \<lparr>resource = a, expired = expiry now ttl\<rparr>)
                 # filter (\<lambda>kv. fst kv \<noteq> host) (conn s)\<rparr>"

text \<open>Modelled from the spec: \<^verbatim>\<open>delete\<close> is missing; \<open>Delete(endpoint)\<close> removes the entry
  if present and closes its connection handle, and does nothing if it is absent.\<close>

definition delete ::
  "string \<Rightarrow> ConnStore \<times> ('md, 'creds) World \<Rightarrow> ConnStore \<times> ('md, 'creds) World" where
  "delete k sw =
     (case map_of (conn (fst sw)) k of
        None \<Rightarrow> sw
      | Some e \<Rightarrow>
          ((fst sw)\<lparr>conn := filter (\<lambda>kv. fst kv \<noteq> k) (conn (fst sw))\<rparr>,
           (snd sw)\<lparr>trace := trace (snd sw) @ [EvClose (clientConn (heap (snd sw) (resource e)))]\<rparr>))"

text \<open>Modelled from the spec: \<^verbatim>\<open>getAllConn\<close> is missing; \<open>Snapshot()\<close> is the view of
  the cached endpoints at that point.\<close>

definition getAllConn :: "ConnStore \<Rightarrow> (string \<times> connection) list" where
  "getAllConn s = conn s"

text \<open>Modelled from the spec: \<^verbatim>\<open>extend\<close> is missing; \<open>Extend(endpoint, maxLifetime)\<close>
  resets the expiry of an existing entry to now plus the lifetime, and does nothing if the
  endpoint is not cached.\<close>

definition extend :: "string \<Rightarrow> Duration \<Rightarrow> int \<Rightarrow> ConnStore \<Rightarrow> ConnStore" where
  "extend k ttl now s =
     s\<lparr>conn := map (\<lambda>kv. if fst kv = k then (fst kv, (snd kv)\<lparr>expired := Some (now + sint ttl)\<rparr>) else kv)
                    (conn s)\<rparr>"

text \<open>Modelled from the spec: the sweep that \<^verbatim>\<open>StartGC\<close> launches is missing; once
  started, a pass removes and closes every entry whose expiry is not after now. A store whose
  sweep was never started is never swept.\<close>

definition isExpired :: "int \<Rightarrow> connection \<Rightarrow> bool" where
  "isExpired now e = (case expired e of None \<Rightarrow> False | Some t \<Rightarrow> t \<le> now)"

definition sweep :: "ConnStore \<times> ('md, 'creds) World \<Rightarrow> ConnStore \<times> ('md, 'creds) World" where
  "sweep sw =
     (case gcInterval (fst sw) of
        None \<Rightarrow> sw
      | Some _ \<Rightarrow>
          fold delete (map fst (filter (\<lambda>kv. isExpired (clock (snd sw)) (snd kv)) (conn (fst sw)))) sw)"

subsection \<open>The methods of Resource that the client calls\<close>

text \<open>Modelled from the spec: \<^verbatim>\<open>Resource.isValid\<close> is missing; \<open>IsHealthy()\<close> reports whether
  the connection handle is usable now: not closed, and not in a failed transport state (which
  the transport decides).\<close>

definition isValid :: "('md, 'creds) collab \<Rightarrow> ('md, 'creds) World \<Rightarrow> 'md Resource \<Rightarrow> bool" where
  "isValid K w r =
     (EvClose (clientConn r) \<notin> set (trace w) \<and> \<not> connFailed K (trace w) (clientConn r))"

text \<open>\<^verbatim>\<open>reflect.DeepEqual\<close> on two \<^verbatim>\<open>[]Proto\<close>: both nil, or both non-nil of the same
  length with equal elements at each index; the \<^verbatim>\<open>Content\<close> of two elements likewise.\<close>

definition DeepEqualBytes :: "8 word list option \<Rightarrow> 8 word list option \<Rightarrow> bool" where
  "DeepEqualBytes a b =
     (case (a, b) of
        (None, None) \<Rightarrow> True
      | (Some xs, Some ys) \<Rightarrow> length xs = length ys \<and> list_all2 (=) xs ys
      | _ \<Rightarrow> False)"

definition DeepEqualProto :: "Proto \<Rightarrow> Proto \<Rightarrow> bool" where
  "DeepEqualProto p q = (Name p = Name q \<and> DeepEqualBytes (Content p) (Content q))"

definition DeepEqual :: "Proto list option \<Rightarrow> Proto list option \<Rightarrow> bool" where
  "DeepEqual a b =
     (case (a, b) of
        (None, None) \<Rightarrow> True
      | (Some xs, Some ys) \<Rightarrow> length xs = length ys \<and> list_all2 DeepEqualProto xs ys
      | _ \<Rightarrow> False)"

text \<open>Modelled from the spec: \<^verbatim>\<open>Resource.AddProtos\<close> is missing; \<open>SetDescriptors\<close> compares
  the new set with the recorded one; if they are equal it succeeds without effect, otherwise
  it persists the new set and records it, and on a persistence failure the recorded set stays
  as it was.\<close>

definition AddProtos ::
  "('md, 'creds) collab \<Rightarrow> nat \<Rightarrow> Proto list option \<Rightarrow> ('md, 'creds) World
     \<Rightarrow> error option \<times> ('md, 'creds) World" where
  "AddProtos K a ps w =
     (let w1 = w\<lparr>trace := trace w @ [EvAddProtos a ps]\<rparr> in
      if DeepEqual (protos (heap w a)) ps then (None, w1)
      else (case persistProtos K (trace w) a ps of
              Some err \<Rightarrow> (Some err, w1)
            | None \<Rightarrow> (None, w1\<lparr>heap := (heap w1)(a := (heap w1 a)\<lparr>protos := ps\<rparr>)\<rparr>)))"

subsection \<open>Closing, dialling, acquiring\<close>

definition CloseActiveConns ::
  "string \<Rightarrow> Client \<times> ('md, 'creds) World \<Rightarrow> error option \<times> Client \<times> ('md, 'creds) World" where
  "CloseActiveConns host gw =
     (if host = ''all'' then
        (let sw = fold delete (map fst (getAllConn (activeConn (fst gw)))) (activeConn (fst gw), snd gw)
         in (None, (fst gw)\<lparr>activeConn := fst sw\<rparr>, snd sw))
      else
        (let sw = delete host (activeConn (fst gw), snd gw)
         in (None, (fst gw)\<lparr>activeConn := fst sw\<rparr>, snd sw)))"

definition Extend :: "string \<Rightarrow> Client \<times> ('md, 'creds) World \<Rightarrow> Client \<times> ('md, 'creds) World" where
  "Extend host gw =
     ((fst gw)\<lparr>activeConn := extend host (maxLifeConn (fst gw)) (clock (snd gw)) (activeConn (fst gw))\<rparr>,
      snd gw)"

definition GetActiveConns :: "Client \<Rightarrow> string list" where
  "GetActiveConns g = map fst (getAllConn (activeConn g))"

text \<open>The options and the credentials that \<^verbatim>\<open>dial\<close> builds before it dials. The
  keepalive option stands for the parameters computed from \<^verbatim>\<open>KeepAlive\<close>.\<close>

definition dialOpts :: "Client \<Rightarrow> DialOption list" where
  "dialOpts g =
     (if KeepAlive g > 0 then [WithKeepaliveParams (KeepAlive g)] else [])
     @ (if authority g \<noteq> [] then [WithAuthority (authority g)] else [])"

definition dialCreds :: "('md, 'creds) collab \<Rightarrow> bool \<Rightarrow> Client \<Rightarrow> error + 'creds option" where
  "dialCreds K plainText g =
     (if \<not> plainText then
        (case ClientTransportCredentials K (insecure g) (cacert g) (cert g) (key g) of
           Inl err \<Rightarrow> Inl err
         | Inr c \<Rightarrow>
             if serverName g \<noteq> [] then
               (case OverrideServerName K c (serverName g) of
                  Inl err \<Rightarrow> Inl err
                | Inr c' \<Rightarrow> Inr (Some c'))
             else Inr (Some c))
      else Inr None)"

definition dial ::
  "('md, 'creds) collab \<Rightarrow> string \<Rightarrow> bool \<Rightarrow> Client \<Rightarrow> ('md, 'creds) World
     \<Rightarrow> (error + nat) \<times> ('md, 'creds) World" where
  "dial K target plainText g w =
     (case dialCreds K plainText g of
        Inl err \<Rightarrow> (Inl err, w)
      | Inr creds \<Rightarrow>
          (let network = (if isUnixSocket g = Some True then ''unix'' else ''tcp'');
               w1 = w\<lparr>trace := trace w @ [EvDial network target creds (dialOpts g)]\<rparr>
           in case BlockingDial K (trace w) network target creds (dialOpts g) of
                Some err \<Rightarrow> (Inl err, w1)
              | None \<Rightarrow> (Inr (nextConn w), w1\<lparr>nextConn := Suc (nextConn w)\<rparr>)))"

text \<open>Lines 111 to 123 of \<^verbatim>\<open>GetResource\<close>: the new Resource.\<close>

definition newResource ::
  "('md, 'creds) collab \<Rightarrow> string \<Rightarrow> bool \<Rightarrow> Client \<times> ('md, 'creds) World
     \<Rightarrow> (error + nat) \<times> Client \<times> ('md, 'creds) World" where
  "newResource K target plainText gw =
     (let g = fst gw;
          h = headers g @ reflectHeaders g;
          m = MetadataFromHeaders K h
      in case dial K target plainText g (snd gw) of
           (Inl err, w1) \<Rightarrow> (Inl err, g, w1)
         | (Inr cc, w1) \<Rightarrow>
             (let a = nextAddr w1;
                  r = \<lparr>md = m, clientConn = cc, rheaders = h, protos = None\<rparr>;
                  w2 = w1\<lparr>heap := (heap w1)(a := r), nextAddr := Suc a\<rparr>
              in (Inr a, g\<lparr>activeConn := addConnection target a (maxLifeConn g) (clock w2) (activeConn g)\<rparr>, w2)))"

definition GetResource ::
  "('md, 'creds) collab \<Rightarrow> string \<Rightarrow> bool \<Rightarrow> bool \<Rightarrow> Client \<times> ('md, 'creds) World
     \<Rightarrow> (error + nat) \<times> Client \<times> ('md, 'creds) World" where
  "GetResource K target plainText isRestartConn gw =
     (case getConnection (activeConn (fst gw)) target of
        Some a \<Rightarrow>
          if \<not> isRestartConn \<and> isValid K (snd gw) (heap (snd gw) a) then
            (Inr a, fst gw,
             (snd gw)\<lparr>heap := (heap (snd gw))
                (a := (heap (snd gw) a)\<lparr>rheaders := headers (fst gw) @ reflectHeaders (fst gw)\<rparr>)\<rparr>)
          else newResource K target plainText (snd (CloseActiveConns target gw))
      | None \<Rightarrow> newResource K target plainText gw)"

definition GetResourceWithProto ::
  "('md, 'creds) collab \<Rightarrow> string \<Rightarrow> bool \<Rightarrow> bool \<Rightarrow> Proto list option
     \<Rightarrow> Client \<times> ('md, 'creds) World
     \<Rightarrow> (nat option \<times> error option) \<times> Client \<times> ('md, 'creds) World" where
  "GetResourceWithProto K target plainText isRestartConn ps gw =
     (case GetResource K target plainText isRestartConn gw of
        (Inl err, gw1) \<Rightarrow> ((None, Some err), gw1)
      | (Inr a, g1, w1) \<Rightarrow>
          if DeepEqual (protos (heap w1 a)) ps then ((Some a, None), g1, w1)
          else (let ew = AddProtos K a ps w1 in ((Some a, fst ew), g1, snd ew)))"

definition Invoke ::
  "('md, 'creds) collab \<Rightarrow> string \<Rightarrow> string \<Rightarrow> string \<Rightarrow> string
     \<Rightarrow> Client \<times> ('md, 'creds) World
     \<Rightarrow> (string \<times> Duration \<times> error option) \<times> Client \<times> ('md, 'creds) World" where
  "Invoke K target service method data gw =
     (case GetResource K target True False gw of
        (Inl err, gw1) \<Rightarrow> (([], 0, Some err), gw1)
      | (Inr a, g1, w1) \<Rightarrow>
          (ResourceInvoke K (trace w1) (heap w1 a) (service @ ''.'' @ method) data,
           g1, w1\<lparr>trace := trace w1 @ [EvInvoke a (service @ ''.'' @ method) data]\<rparr>))"

subsection \<open>Construction\<close>

text \<open>
  \<^verbatim>\<open>strconv.Atoi\<close> of the Go library, on a 64-bit platform: an optional sign, then one
  or more decimal digits, denoting a value that fits an \<^verbatim>\<open>int64\<close>; anything else is an
  error (\<open>None\<close>). \<^verbatim>\<open>os.Getenv\<close> is a function from names to values that gives the
  empty string for a variable that is not set.
\<close>

fun parseDigits :: "string \<Rightarrow> int \<Rightarrow> int option" where
  "parseDigits [] n = Some n"
| "parseDigits (c # cs) n =
     (if (48::nat) \<le> of_char c \<and> of_char c \<le> (57::nat)
      then parseDigits cs (n * 10 + int (of_char c - 48))
      else None)"

definition Atoi :: "string \<Rightarrow> 64 word option" where
  "Atoi s =
     (case s of
        [] \<Rightarrow> None
      | c # cs \<Rightarrow>
          (let ds = (if c = CHR ''-'' \<or> c = CHR ''+'' then cs else s) in
           if ds = [] then None
           else (case parseDigits ds 0 of
                   None \<Rightarrow> None
                 | Some n \<Rightarrow>
                     (let v = (if c = CHR ''-'' then - n else n) in
                      if - (2 ^ 63) \<le> v \<and> v < 2 ^ 63 then Some (word_of_int v) else None))))"

definition NewClient :: "(string \<Rightarrow> string) \<Rightarrow> Client" where
  "NewClient getenv =
     (let maxLife = (case Atoi (getenv ''MAX_LIFE_CONN'') of Some val \<Rightarrow> val | None \<Rightarrow> 10);
          tick = (case Atoi (getenv ''TICK_CLOSE_CONN'') of Some val \<Rightarrow> val | None \<Rightarrow> 3);
          c = NewConnectionStore;
          g = \<lparr>KeepAlive = 0, activeConn = c, maxLifeConn = 0, headers = [], reflectHeaders = [],
               authority = [], insecure = False, cacert = [], cert = [], key = [],
               serverName = [], isUnixSocket = None\<rparr>
      in if 0 <s maxLife \<and> 0 <s tick
         then g\<lparr>maxLifeConn := maxLife * Minute, activeConn := StartGC (tick * Second) c\<rparr>
         else g)"

subsection \<open>Runs of the client\<close>

text \<open>The calls a caller can make on a client, and the sweep that runs in the background
  once it has been started; a run is a sequence of them.\<close>

datatype call =
    CallSetHeaders "string list"
  | CallAddHeaders "string list"
  | CallClearHeaders "string list"
  | CallInvoke string string string string
  | CallGetResource string bool bool
  | CallGetResourceWithProto string bool bool "Proto list option"
  | CallCloseActiveConns string
  | CallExtend string
  | Sweep
  | Elapse nat

fun step ::
  "('md, 'creds) collab \<Rightarrow> call \<Rightarrow> Client \<times> ('md, 'creds) World \<Rightarrow> Client \<times> ('md, 'creds) World" where
  "step K (CallSetHeaders hs) gw = (SetHeaders hs (fst gw), snd gw)"
| "step K (CallAddHeaders hs) gw = (AddHeaders hs (fst gw), snd gw)"
| "step K (CallClearHeaders hs) gw = (ClearHeaders hs (fst gw), snd gw)"
| "step K (CallInvoke target service method data) gw = snd (Invoke K target service method data gw)"
| "step K (CallGetResource target plainText isRestartConn) gw =
     snd (GetResource K target plainText isRestartConn gw)"
| "step K (CallGetResourceWithProto target plainText isRestartConn ps) gw =
     snd (GetResourceWithProto K target plainText isRestartConn ps gw)"
| "step K (CallCloseActiveConns host) gw = snd (CloseActiveConns host gw)"
| "step K (CallExtend host) gw = Extend host gw"
| "step K Sweep gw =
     (let sw = sweep (activeConn (fst gw), snd gw) in ((fst gw)\<lparr>activeConn := fst sw\<rparr>, snd sw))"
| "step K (Elapse d) gw = (fst gw, (snd gw)\<lparr>clock := clock (snd gw) + int d\<rparr>)"

definition run ::
  "('md, 'creds) collab \<Rightarrow> call list \<Rightarrow> Client \<times> ('md, 'creds) World \<Rightarrow> Client \<times> ('md, 'creds) World" where
  "run K cs gw = fold (step K) cs gw"

subsection \<open>Observations\<close>

text \<open>What the properties below read off a state or a trace: whether the cache holds a
  healthy Resource for an endpoint, the kinds of event, the two settings that construction
  fixes, and a client with other TLS material.\<close>

definition healthyCached ::
  "('md, 'creds) collab \<Rightarrow> string \<Rightarrow> Client \<times> ('md, 'creds) World \<Rightarrow> bool" where
  "healthyCached K target gw =
     (case getConnection (activeConn (fst gw)) target of
        None \<Rightarrow> False
      | Some a \<Rightarrow> isValid K (snd gw) (heap (snd gw) a))"

fun isDial :: "'creds event \<Rightarrow> bool" where
  "isDial (EvDial n t c os) = True"
| "isDial _ = False"

definition dialCount :: "'creds event list \<Rightarrow> nat" where
  "dialCount tr = length (filter isDial tr)"

fun isInvoke :: "'creds event \<Rightarrow> bool" where
  "isInvoke (EvInvoke a m d) = True"
| "isInvoke _ = False"

fun isAddProtos :: "'creds event \<Rightarrow> bool" where
  "isAddProtos (EvAddProtos a ps) = True"
| "isAddProtos _ = False"

fun dialedWithCreds :: "'creds event \<Rightarrow> bool" where
  "dialedWithCreds (EvDial n t (Some c) os) = True"
| "dialedWithCreds _ = False"

definition config :: "Client \<Rightarrow> Duration \<times> Duration option" where
  "config g = (maxLifeConn g, gcInterval (activeConn g))"

definition withTLS :: "bool \<Rightarrow> string \<Rightarrow> string \<Rightarrow> string \<Rightarrow> string \<Rightarrow> Client \<Rightarrow> Client" where
  "withTLS i ca ce k sn g = g\<lparr>insecure := i, cacert := ca, cert := ce, key := k, serverName := sn\<rparr>"

subsection \<open>An example\<close>

text \<open>A transport on which every endpoint but \<^verbatim>\<open>down\<close> can be dialled, no connection
  fails, persistence succeeds and an invocation echoes its payload; the metadata object of a
  header list is the list itself. The example client is built with no environment variable
  set, is given the header \<^verbatim>\<open>a: 1\<close>, acquires \<^verbatim>\<open>svcA\<close> and is then given the header
  \<^verbatim>\<open>b: 2\<close>.\<close>

definition exCollab :: "(string list, nat) collab" where
  "exCollab =
     \<lparr>MetadataFromHeaders = (\<lambda>hs. hs),
      ClientTransportCredentials = (\<lambda>i ca ce k. Inr 0),
      OverrideServerName = (\<lambda>c n. Inr c),
      BlockingDial = (\<lambda>tr n t c os. if t = ''down'' then Some (Error ''unreachable'') else None),
      connFailed = (\<lambda>tr c. False),
      persistProtos = (\<lambda>tr a ps. None),
      ResourceInvoke = (\<lambda>tr r m d. (d, 0, None))\<rparr>"

definition exWorld :: "(string list, nat) World" where
  "exWorld =
     \<lparr>heap = (\<lambda>a. \<lparr>md = [], clientConn = 0, rheaders = [], protos = None\<rparr>),
      nextAddr = 0, nextConn = 0, trace = [], clock = 0\<rparr>"

definition exStart :: "Client \<times> (string list, nat) World" where
  "exStart = (SetHeaders [''a: 1''] (NewClient (\<lambda>v. [])), exWorld)"

definition exCached :: "Client \<times> (string list, nat) World" where
  "exCached = run exCollab [CallGetResource ''svcA'' True False, CallSetHeaders [''b: 2'']] exStart"

definition exTLS :: Client where
  "exTLS = withTLS True ''ca.pem'' ''cert.pem'' ''key.pem'' ''server'' (fst exCached)"

definition exEnv :: "string \<Rightarrow> string" where
  "exEnv v = (if v = ''MAX_LIFE_CONN'' then ''0'' else if v = ''TICK_CLOSE_CONN'' then ''5'' else [])"

definition exProtos :: "Proto list option" where
  "exProtos = Some [\<lparr>Name = ''greeter.proto'', Content = Some [1, 2]\<rparr>]"

section \<open>Lemmas\<close>

subsection \<open>Traces\<close>

lemma dialCount_append [simp]: "dialCount (xs @ ys) = dialCount xs + dialCount ys"
  by (simp add: dialCount_def)

subsection \<open>The store\<close>

lemma filter_absent: "map_of xs k = None \<Longrightarrow> filter (\<lambda>kv. fst kv \<noteq> k) xs = xs"
  by (induction xs) (auto split: if_splits)

lemma map_of_filter_key:
  "map_of (filter (\<lambda>kv. fst kv \<noteq> k) xs) k' = (if k' = k then None else map_of xs k')"
  by (induction xs) auto

lemma delete_conn: "conn (fst (delete k sw)) = filter (\<lambda>kv. fst kv \<noteq> k) (conn (fst sw))"
  by (simp add: delete_def filter_absent split: option.splits)

lemma delete_gcInterval: "gcInterval (fst (delete k sw)) = gcInterval (fst sw)"
  by (simp add: delete_def split: option.splits)

lemma delete_absent: "map_of (conn (fst sw)) k = None \<Longrightarrow> delete k sw = sw"
  by (simp add: delete_def)

lemma delete_frame:
  "snd (delete k sw) = (snd sw)\<lparr>trace := trace (snd (delete k sw))\<rparr>"
  by (simp add: delete_def split: option.splits)

lemma delete_filter:
  assumes "\<And>c. \<not> P (EvClose c)"
  shows "filter P (trace (snd (delete k sw))) = filter P (trace (snd sw))"
  using assms by (simp add: delete_def split: option.splits)

lemma delete_dialCount: "dialCount (trace (snd (delete k sw))) = dialCount (trace (snd sw))"
  by (simp add: delete_def dialCount_def split: option.splits)

lemma fold_delete_conn:
  "conn (fst (fold delete ks sw)) = filter (\<lambda>kv. fst kv \<notin> set ks) (conn (fst sw))"
  by (induction ks arbitrary: sw) (auto simp: delete_conn intro: filter_cong)

lemma fold_delete_all: "set (map fst (conn (fst sw))) \<subseteq> set ks \<Longrightarrow> conn (fst (fold delete ks sw)) = []"
  by (auto simp: fold_delete_conn filter_empty_conv)

lemma fold_delete_gcInterval: "gcInterval (fst (fold delete ks sw)) = gcInterval (fst sw)"
  by (induction ks arbitrary: sw) (auto simp: delete_gcInterval)

lemma fold_delete_frame:
  "snd (fold delete ks sw) = (snd sw)\<lparr>trace := trace (snd (fold delete ks sw))\<rparr>"
proof (induction ks arbitrary: sw)
  case Nil
  then show ?case by simp
next
  case (Cons k ks)
  have "snd (fold delete ks (delete k sw)) = (snd (delete k sw))\<lparr>trace := trace (snd (fold delete ks (delete k sw)))\<rparr>"
    by (rule Cons.IH)
  also have "\<dots> = (snd sw)\<lparr>trace := trace (snd (fold delete ks (delete k sw)))\<rparr>"
    by (subst delete_frame) simp
  finally show ?case by simp
qed

lemma fold_delete_filter:
  assumes "\<And>c. \<not> P (EvClose c)"
  shows "filter P (trace (snd (fold delete ks sw))) = filter P (trace (snd sw))"
  by (induction ks arbitrary: sw) (simp_all add: delete_filter [of P, OF assms])

lemma fold_delete_dialCount:
  "dialCount (trace (snd (fold delete ks sw))) = dialCount (trace (snd sw))"
  by (induction ks arbitrary: sw) (simp_all add: delete_dialCount)

subsection \<open>Closing\<close>

lemma CloseActiveConns_client:
  "fst (snd (CloseActiveConns host gw)) =
     (fst gw)\<lparr>activeConn := activeConn (fst (snd (CloseActiveConns host gw)))\<rparr>"
  by (simp add: CloseActiveConns_def Let_def)

lemma CloseActiveConns_world:
  "snd (snd (CloseActiveConns host gw)) =
     (snd gw)\<lparr>trace := trace (snd (snd (CloseActiveConns host gw)))\<rparr>"
  using fold_delete_frame [of "map fst (getAllConn (activeConn (fst gw)))" "(activeConn (fst gw), snd gw)"]
        delete_frame [of host "(activeConn (fst gw), snd gw)"]
  by (simp add: CloseActiveConns_def Let_def)

lemma CloseActiveConns_filter:
  assumes "\<And>c. \<not> P (EvClose c)"
  shows "filter P (trace (snd (snd (CloseActiveConns host gw)))) = filter P (trace (snd gw))"
  by (simp add: CloseActiveConns_def Let_def fold_delete_filter [of P, OF assms]
      delete_filter [of P, OF assms])

lemma CloseActiveConns_dialCount:
  "dialCount (trace (snd (snd (CloseActiveConns host gw)))) = dialCount (trace (snd gw))"
  by (simp add: CloseActiveConns_def Let_def fold_delete_dialCount delete_dialCount)

lemma CloseActiveConns_gone:
  "getConnection (activeConn (fst (snd (CloseActiveConns host gw)))) host = None"
  by (simp add: CloseActiveConns_def Let_def getConnection_def getAllConn_def fold_delete_all
      delete_conn map_of_filter_key)

lemma CloseActiveConns_config: "config (fst (snd (CloseActiveConns host gw))) = config (fst gw)"
  by (simp add: config_def CloseActiveConns_def Let_def fold_delete_gcInterval delete_gcInterval)

subsection \<open>Dialling and the new Resource\<close>

lemma dialCreds_plainText: "dialCreds K True g = Inr None"
  by (simp add: dialCreds_def)

lemma dial_frame:
  "snd (dial K target plainText g w) =
     w\<lparr>trace := trace (snd (dial K target plainText g w)),
       nextConn := nextConn (snd (dial K target plainText g w))\<rparr>"
  by (simp add: dial_def Let_def split: sum.splits option.splits)

lemma dial_heap [simp]: "heap (snd (dial K target plainText g w)) = heap w"
  and dial_nextAddr [simp]: "nextAddr (snd (dial K target plainText g w)) = nextAddr w"
  and dial_clock [simp]: "clock (snd (dial K target plainText g w)) = clock w"
  by (simp_all add: dial_def Let_def split: sum.splits option.splits)

lemma dial_dialCount:
  "dialCount (trace (snd (dial K target plainText g w))) \<le> Suc (dialCount (trace w))"
  by (simp add: dial_def Let_def dialCount_def split: sum.splits option.splits)

lemma dial_ok_dialCount:
  "fst (dial K target plainText g w) = Inr cc \<Longrightarrow>
     dialCount (trace (snd (dial K target plainText g w))) = Suc (dialCount (trace w))"
  by (simp add: dial_def Let_def dialCount_def split: sum.splits option.splits)

lemma dial_filter:
  assumes "\<And>n c os. (plainText \<longrightarrow> c = None) \<Longrightarrow> \<not> P (EvDial n target c os)"
  shows "filter P (trace (snd (dial K target plainText g w))) = filter P (trace w)"
proof (cases plainText)
  case True
  then show ?thesis using assms [of None]
    by (simp add: dial_def dialCreds_plainText Let_def split: option.splits)
next
  case False
  then show ?thesis using assms
    by (simp add: dial_def Let_def split: sum.splits option.splits)
qed

lemma newResource_fail:
  assumes "fst (dial K target plainText (fst gw) (snd gw)) = Inl err"
  shows "newResource K target plainText gw
           = (Inl err, fst gw, snd (dial K target plainText (fst gw) (snd gw)))"
proof (cases "dial K target plainText (fst gw) (snd gw)")
  case (Pair d w1)
  with assms show ?thesis by (simp add: newResource_def Let_def)
qed

lemma newResource_ok:
  assumes "fst (dial K target plainText (fst gw) (snd gw)) = Inr cc"
  shows "newResource K target plainText gw =
       (Inr (nextAddr (snd gw)),
        (fst gw)\<lparr>activeConn := addConnection target (nextAddr (snd gw)) (maxLifeConn (fst gw))
                                  (clock (snd gw)) (activeConn (fst gw))\<rparr>,
        (snd (dial K target plainText (fst gw) (snd gw)))
          \<lparr>heap := (heap (snd gw))
             (nextAddr (snd gw) :=
                \<lparr>md = MetadataFromHeaders K (headers (fst gw) @ reflectHeaders (fst gw)),
                 clientConn = cc,
                 rheaders = headers (fst gw) @ reflectHeaders (fst gw),
                 protos = None\<rparr>),
            nextAddr := Suc (nextAddr (snd gw))\<rparr>)"
proof (cases "dial K target plainText (fst gw) (snd gw)")
  case (Pair d w1)
  have "heap w1 = heap (snd gw)" "nextAddr w1 = nextAddr (snd gw)" "clock w1 = clock (snd gw)"
    using dial_heap [of K target plainText "fst gw" "snd gw"]
          dial_nextAddr [of K target plainText "fst gw" "snd gw"]
          dial_clock [of K target plainText "fst gw" "snd gw"] Pair by simp_all
  with assms Pair show ?thesis by (simp add: newResource_def Let_def)
qed

lemma newResource_trace:
  "trace (snd (snd (newResource K target plainText gw)))
     = trace (snd (dial K target plainText (fst gw) (snd gw)))"
proof (cases "fst (dial K target plainText (fst gw) (snd gw))")
  case (Inl err)
  then show ?thesis by (simp add: newResource_fail)
next
  case (Inr cc)
  then show ?thesis by (simp add: newResource_ok)
qed

lemma newResource_config: "config (fst (snd (newResource K target plainText gw))) = config (fst gw)"
proof (cases "fst (dial K target plainText (fst gw) (snd gw))")
  case (Inl err)
  then show ?thesis by (simp add: newResource_fail)
next
  case (Inr cc)
  then show ?thesis by (simp add: newResource_ok config_def addConnection_def)
qed

subsection \<open>Acquiring\<close>

lemma GetResource_miss:
  assumes "isRestartConn \<or> \<not> healthyCached K target gw"
  shows "GetResource K target plainText isRestartConn gw =
           newResource K target plainText
             (case getConnection (activeConn (fst gw)) target of
                None \<Rightarrow> gw | Some a \<Rightarrow> snd (CloseActiveConns target gw))"
  using assms by (auto simp: GetResource_def healthyCached_def split: option.splits)

lemma GetResource_filter:
  assumes "\<And>c. \<not> P (EvClose c)"
      and "\<And>n c os. (plainText \<longrightarrow> c = None) \<Longrightarrow> \<not> P (EvDial n target c os)"
  shows "filter P (trace (snd (snd (GetResource K target plainText isRestartConn gw))))
           = filter P (trace (snd gw))"
  by (simp add: GetResource_def newResource_trace dial_filter [of plainText P, OF assms(2)]
      CloseActiveConns_filter [of P, OF assms(1)] split: option.splits)

lemma GetResource_config:
  "config (fst (snd (GetResource K target plainText isRestartConn gw))) = config (fst gw)"
  by (simp add: GetResource_def newResource_config CloseActiveConns_config split: option.splits)

lemma GetResourceWithProto_config:
  "config (fst (snd (GetResourceWithProto K target plainText isRestartConn ps gw))) = config (fst gw)"
proof (cases "GetResource K target plainText isRestartConn gw")
  case (fields res g1 w1)
  then have "config g1 = config (fst gw)"
    using GetResource_config [of K target plainText isRestartConn gw] by simp
  with fields show ?thesis
    by (cases res) (simp_all add: GetResourceWithProto_def Let_def)
qed

lemma Invoke_config:
  "config (fst (snd (Invoke K target service method data gw))) = config (fst gw)"
proof (cases "GetResource K target True False gw")
  case (fields res g1 w1)
  then have "config g1 = config (fst gw)"
    using GetResource_config [of K target True False gw] by simp
  with fields show ?thesis
    by (cases res) (simp_all add: Invoke_def)
qed

subsection \<open>Descriptor sets\<close>

lemma DeepEqualBytes_eq: "DeepEqualBytes a b \<longleftrightarrow> a = b"
  by (cases a; cases b) (auto simp: DeepEqualBytes_def list.rel_eq)

lemma DeepEqualProto_eq: "DeepEqualProto p q \<longleftrightarrow> p = q"
  by (auto simp: DeepEqualProto_def DeepEqualBytes_eq)

lemma DeepEqual_eq: "DeepEqual a b \<longleftrightarrow> a = b"
proof -
  have "DeepEqualProto = (=)"
    by (intro ext) (simp add: DeepEqualProto_eq)
  then show ?thesis
    by (cases a; cases b) (auto simp: DeepEqual_def list.rel_eq)
qed

lemma AddProtos_ok:
  "fst (AddProtos K a ps w) = None \<Longrightarrow> protos (heap (snd (AddProtos K a ps w)) a) = ps"
  by (auto simp: AddProtos_def Let_def DeepEqual_eq split: option.splits if_splits)

lemma AddProtos_trace: "trace (snd (AddProtos K a ps w)) = trace w @ [EvAddProtos a ps]"
  by (simp add: AddProtos_def Let_def split: option.splits)

subsection \<open>TLS material on the plain-text path\<close>

lemma withTLS_activeConn:
  "withTLS i ca ce k sn (g\<lparr>activeConn := s\<rparr>) = (withTLS i ca ce k sn g)\<lparr>activeConn := s\<rparr>"
  "activeConn (withTLS i ca ce k sn g) = activeConn g"
  "headers (withTLS i ca ce k sn g) = headers g"
  "reflectHeaders (withTLS i ca ce k sn g) = reflectHeaders g"
  "maxLifeConn (withTLS i ca ce k sn g) = maxLifeConn g"
  by (simp_all add: withTLS_def)

lemma CloseActiveConns_withTLS:
  "CloseActiveConns host (withTLS i ca ce k sn g, w) =
     (fst (CloseActiveConns host (g, w)),
      withTLS i ca ce k sn (fst (snd (CloseActiveConns host (g, w)))),
      snd (snd (CloseActiveConns host (g, w))))"
  by (simp add: CloseActiveConns_def Let_def withTLS_activeConn)

lemma dial_plainText_withTLS:
  "dial (K\<lparr>ClientTransportCredentials := f, OverrideServerName := h\<rparr>) target True
      (withTLS i ca ce k sn g) w = dial K target True g w"
proof -
  have "dialOpts (withTLS i ca ce k sn g) = dialOpts g"
    by (simp add: dialOpts_def withTLS_def)
  moreover have "isUnixSocket (withTLS i ca ce k sn g) = isUnixSocket g"
    by (simp add: withTLS_def)
  ultimately show ?thesis
    by (simp add: dial_def dialCreds_plainText Let_def split: option.splits)
qed

lemma newResource_plainText_withTLS:
  "newResource (K\<lparr>ClientTransportCredentials := f, OverrideServerName := h\<rparr>) target True
      (withTLS i ca ce k sn g, w) =
     (fst (newResource K target True (g, w)),
      withTLS i ca ce k sn (fst (snd (newResource K target True (g, w)))),
      snd (snd (newResource K target True (g, w))))"
  by (simp add: newResource_def Let_def dial_plainText_withTLS withTLS_activeConn
      split: prod.splits sum.splits)

lemma GetResource_plainText_withTLS:
  "GetResource (K\<lparr>ClientTransportCredentials := f, OverrideServerName := h\<rparr>) target True r
      (withTLS i ca ce k sn g, w) =
     (fst (GetResource K target True r (g, w)),
      withTLS i ca ce k sn (fst (snd (GetResource K target True r (g, w)))),
      snd (snd (GetResource K target True r (g, w))))"
proof -
  have v: "isValid (K\<lparr>ClientTransportCredentials := f, OverrideServerName := h\<rparr>) w x = isValid K w x" for x
    by (simp add: isValid_def)
  show ?thesis
    using newResource_plainText_withTLS
      [where K = K and g = "fst (snd (CloseActiveConns target (g, w)))"
         and w = "snd (snd (CloseActiveConns target (g, w)))"]
    by (simp add: GetResource_def v withTLS_activeConn CloseActiveConns_withTLS
        newResource_plainText_withTLS split: option.splits)
qed

subsection \<open>Runs\<close>

lemma sweep_gcInterval: "gcInterval (fst (sweep sw)) = gcInterval (fst sw)"
  by (simp add: sweep_def fold_delete_gcInterval split: option.splits)

lemma step_config: "config (fst (step K c gw)) = config (fst gw)"
proof (cases c)
  case Sweep
  then show ?thesis by (simp add: config_def Let_def sweep_gcInterval)
qed (simp_all add: GetResource_config GetResourceWithProto_config Invoke_config
      CloseActiveConns_config,
     simp_all add: config_def SetHeaders_def AddHeaders_def ClearHeaders_def Extend_def extend_def)

lemma run_config: "config (fst (run K cs gw)) = config (fst gw)"
  unfolding run_def by (induction cs arbitrary: gw) (simp_all add: step_config)

lemma step_Sweep_off: "gcInterval (activeConn (fst gw)) = None \<Longrightarrow> step K Sweep gw = gw"
  by (simp add: sweep_def Let_def)

subsection \<open>The example\<close>

lemma Atoi_examples: "Atoi ''0'' = Some 0" "Atoi ''5'' = Some 5" "Atoi [] = None"
  by (simp_all add: Atoi_def)

lemma NewClient_unset:
  "NewClient (\<lambda>v. []) =
     \<lparr>KeepAlive = 0, activeConn = \<lparr>conn = [], gcInterval = Some 3000000000\<rparr>,
      maxLifeConn = 600000000000, headers = [], reflectHeaders = [],
      authority = [], insecure = False, cacert = [], cert = [], key = [],
      serverName = [], isUnixSocket = None\<rparr>"
  by (simp add: NewClient_def Atoi_def NewConnectionStore_def StartGC_def Minute_def Second_def
      Let_def word_sless_alt)

lemma NewClient_exEnv:
  "NewClient exEnv =
     \<lparr>KeepAlive = 0, activeConn = \<lparr>conn = [], gcInterval = None\<rparr>,
      maxLifeConn = 0, headers = [], reflectHeaders = [],
      authority = [], insecure = False, cacert = [], cert = [], key = [],
      serverName = [], isUnixSocket = None\<rparr>"
  by (simp add: NewClient_def exEnv_def Atoi_examples NewConnectionStore_def Let_def word_sless_alt)

lemma exCached_eq:
  "exCached =
     (\<lparr>KeepAlive = 0,
       activeConn = \<lparr>conn = [(''svcA'', \<lparr>resource = 0, expired = Some 600000000000\<rparr>)],
                     gcInterval = Some 3000000000\<rparr>,
       maxLifeConn = 600000000000, headers = [''b: 2''], reflectHeaders = [],
       authority = [], insecure = False, cacert = [], cert = [], key = [],
       serverName = [], isUnixSocket = None\<rparr>,
      \<lparr>heap = (\<lambda>a. \<lparr>md = [], clientConn = 0, rheaders = [], protos = None\<rparr>)
                (0 := \<lparr>md = [''a: 1''], clientConn = 0, rheaders = [''a: 1''], protos = None\<rparr>),
       nextAddr = 1, nextConn = 1, trace = [EvDial ''tcp'' ''svcA'' None []], clock = 0\<rparr>)"
  by (simp add: exCached_def exStart_def run_def NewClient_unset SetHeaders_def GetResource_def
      getConnection_def newResource_def dial_def dialCreds_def dialOpts_def exCollab_def exWorld_def
      addConnection_def expiry_def Let_def)

lemma exCached_hit:
  "GetResource exCollab ''svcA'' plainText False exCached =
     (Inr 0, fst exCached,
      (snd exCached)\<lparr>heap := (heap (snd exCached))
         (0 := \<lparr>md = [''a: 1''], clientConn = 0, rheaders = [''b: 2''], protos = None\<rparr>)\<rparr>)"
  by (simp add: exCached_eq GetResource_def getConnection_def isValid_def exCollab_def)

section \<open>Properties\<close>

subsection \<open>Headers\<close>

text \<open>
  C9. For every client and every argument list: \<^verbatim>\<open>SetHeaders\<close> replaces the client's
  header list with its argument, \<^verbatim>\<open>AddHeaders\<close> appends its argument to the existing
  list and keeps the prior order, and \<^verbatim>\<open>ClearHeaders\<close> empties the list whatever its
  argument is. Each changes no other field of the client.
\<close>

theorem headers_set_add_clear:
  "headers (SetHeaders hs g) = hs
   \<and> headers (AddHeaders hs g) = headers g @ hs
   \<and> headers (ClearHeaders hs g) = []
   \<and> ClearHeaders hs g = ClearHeaders hs' g
   \<and> SetHeaders hs g = g\<lparr>headers := headers (SetHeaders hs g)\<rparr>
   \<and> AddHeaders hs g = g\<lparr>headers := headers (AddHeaders hs g)\<rparr>
   \<and> ClearHeaders hs g = g\<lparr>headers := headers (ClearHeaders hs g)\<rparr>"
  by (simp add: SetHeaders_def AddHeaders_def ClearHeaders_def)

subsection \<open>Reuse of a cached Resource\<close>

text \<open>
  C1. For every endpoint: when \<^verbatim>\<open>GetResource\<close> is called with \<^verbatim>\<open>isRestartConn = false\<close>,
  the cache holds a Resource for the endpoint and that Resource reports valid, the call
  returns that same Resource, leaves the client and so the cache as they were, dials and
  closes nothing, and has written to the Resource's headers the caller-supplied headers
  followed by the reflection headers.
\<close>

theorem GetResource_reuse:
  assumes "getConnection (activeConn (fst gw)) target = Some a"
      and "isValid K (snd gw) (heap (snd gw) a)"
  shows "fst (GetResource K target plainText False gw) = Inr a
         \<and> fst (snd (GetResource K target plainText False gw)) = fst gw
         \<and> trace (snd (snd (GetResource K target plainText False gw))) = trace (snd gw)
         \<and> nextConn (snd (snd (GetResource K target plainText False gw))) = nextConn (snd gw)
         \<and> nextAddr (snd (snd (GetResource K target plainText False gw))) = nextAddr (snd gw)
         \<and> rheaders (heap (snd (snd (GetResource K target plainText False gw))) a)
             = headers (fst gw) @ reflectHeaders (fst gw)"
  using assms by (simp add: GetResource_def)

text \<open>The example client, whose cached Resource for \<^verbatim>\<open>svcA\<close> was made with the header
  \<^verbatim>\<open>a: 1\<close>, acquires \<^verbatim>\<open>svcA\<close> again: the second header set replaces the first.\<close>

theorem GetResource_reuse_witness:
  "getConnection (activeConn (fst exCached)) ''svcA'' = Some 0
   \<and> isValid exCollab (snd exCached) (heap (snd exCached) 0)
   \<and> fst (GetResource exCollab ''svcA'' True False exCached) = Inr 0
   \<and> fst (snd (GetResource exCollab ''svcA'' True False exCached)) = fst exCached
   \<and> trace (snd (snd (GetResource exCollab ''svcA'' True False exCached))) = trace (snd exCached)
   \<and> rheaders (heap (snd (snd (GetResource exCollab ''svcA'' True False exCached))) 0) = [''b: 2'']"
proof -
  have h1: "getConnection (activeConn (fst exCached)) ''svcA'' = Some 0"
    by (simp add: exCached_eq getConnection_def)
  have h2: "isValid exCollab (snd exCached) (heap (snd exCached) 0)"
    by (simp add: exCached_eq isValid_def exCollab_def)
  show ?thesis
    using h1 h2 GetResource_reuse [OF h1 h2, of True] by (simp add: exCached_eq)
qed

subsection \<open>A new connection\<close>

text \<open>
  C2. For every call of \<^verbatim>\<open>GetResource\<close> with no healthy cached Resource for the endpoint
  (a miss, an unhealthy Resource, or \<^verbatim>\<open>isRestartConn = true\<close>): the cache holds no entry
  for the endpoint when the dial starts; the call dials at most once; when the dial fails the
  call returns its error as it is, with the client as it was after the deletion, so with no
  entry for the endpoint; when the dial succeeds the call returns a new Resource that
  carries the combined headers, the metadata built from them and the new connection, and
  the cache holds one new entry for the endpoint, with the client's max lifetime.
\<close>

theorem GetResource_redial:
  assumes "isRestartConn \<or> \<not> healthyCached K target gw"
  shows "let gw0 = (case getConnection (activeConn (fst gw)) target of
                      None \<Rightarrow> gw | Some a \<Rightarrow> snd (CloseActiveConns target gw));
             d = dial K target plainText (fst gw0) (snd gw0);
             h = headers (fst gw) @ reflectHeaders (fst gw);
             r = GetResource K target plainText isRestartConn gw
         in getConnection (activeConn (fst gw0)) target = None
            \<and> dialCount (trace (snd (snd r))) \<le> Suc (dialCount (trace (snd gw)))
            \<and> (case fst d of
                  Inl err \<Rightarrow>
                    r = (Inl err, fst gw0, snd d)
                    \<and> getConnection (activeConn (fst (snd r))) target = None
                | Inr cc \<Rightarrow>
                    fst r = Inr (nextAddr (snd gw))
                    \<and> heap (snd (snd r)) (nextAddr (snd gw))
                        = \<lparr>md = MetadataFromHeaders K h, clientConn = cc, rheaders = h, protos = None\<rparr>
                    \<and> conn (activeConn (fst (snd r)))
                        = (target, \<lparr>resource = nextAddr (snd gw),
                                    expired = expiry (clock (snd gw)) (maxLifeConn (fst gw))\<rparr>)
                          # conn (activeConn (fst gw0))
                    \<and> getConnection (activeConn (fst (snd r))) target = Some (nextAddr (snd gw))
                    \<and> dialCount (trace (snd (snd r))) = Suc (dialCount (trace (snd gw))))"
proof -
  define gw0 where "gw0 = (case getConnection (activeConn (fst gw)) target of
                      None \<Rightarrow> gw | Some a \<Rightarrow> snd (CloseActiveConns target gw))"
  define d where "d = dial K target plainText (fst gw0) (snd gw0)"
  define r where "r = GetResource K target plainText isRestartConn gw"
  have r: "r = newResource K target plainText gw0"
    unfolding r_def gw0_def by (rule GetResource_miss [OF assms])
  have gone: "getConnection (activeConn (fst gw0)) target = None"
    by (simp add: gw0_def CloseActiveConns_gone split: option.splits)
  have cl: "fst gw0 = (fst gw)\<lparr>activeConn := activeConn (fst gw0)\<rparr>"
    unfolding gw0_def using CloseActiveConns_client [of target gw] by (simp split: option.splits)
  have wl: "snd gw0 = (snd gw)\<lparr>trace := trace (snd gw0)\<rparr>"
    unfolding gw0_def using CloseActiveConns_world [of target gw] by (simp split: option.splits)
  have hd: "headers (fst gw0) = headers (fst gw)" "reflectHeaders (fst gw0) = reflectHeaders (fst gw)"
           "maxLifeConn (fst gw0) = maxLifeConn (fst gw)"
    by (subst cl, simp)+
  have wd: "heap (snd gw0) = heap (snd gw)" "nextAddr (snd gw0) = nextAddr (snd gw)"
           "clock (snd gw0) = clock (snd gw)"
    by (subst wl, simp)+
  have dc0: "dialCount (trace (snd gw0)) = dialCount (trace (snd gw))"
    by (simp add: gw0_def CloseActiveConns_dialCount split: option.splits)
  have absent: "map_of (conn (activeConn (fst gw0))) target = None"
    using gone by (simp add: getConnection_def)
  have main: "dialCount (trace (snd (snd r))) \<le> Suc (dialCount (trace (snd gw)))
            \<and> (case fst d of
                  Inl err \<Rightarrow>
                    r = (Inl err, fst gw0, snd d)
                    \<and> getConnection (activeConn (fst (snd r))) target = None
                | Inr cc \<Rightarrow>
                    fst r = Inr (nextAddr (snd gw))
                    \<and> heap (snd (snd r)) (nextAddr (snd gw))
                        = \<lparr>md = MetadataFromHeaders K (headers (fst gw) @ reflectHeaders (fst gw)),
                           clientConn = cc,
                           rheaders = headers (fst gw) @ reflectHeaders (fst gw), protos = None\<rparr>
                    \<and> conn (activeConn (fst (snd r)))
                        = (target, \<lparr>resource = nextAddr (snd gw),
                                    expired = expiry (clock (snd gw)) (maxLifeConn (fst gw))\<rparr>)
                          # conn (activeConn (fst gw0))
                    \<and> getConnection (activeConn (fst (snd r))) target = Some (nextAddr (snd gw))
                    \<and> dialCount (trace (snd (snd r))) = Suc (dialCount (trace (snd gw))))"
  proof (cases "fst d")
    case (Inl err)
    then have "r = (Inl err, fst gw0, snd d)"
      unfolding r d_def by (rule newResource_fail)
    moreover have "dialCount (trace (snd d)) \<le> Suc (dialCount (trace (snd gw)))"
      unfolding d_def using dial_dialCount [of K target plainText "fst gw0" "snd gw0"] dc0 by simp
    ultimately show ?thesis using Inl gone by simp
  next
    case (Inr cc)
    then have req: "r = (Inr (nextAddr (snd gw0)),
        (fst gw0)\<lparr>activeConn := addConnection target (nextAddr (snd gw0)) (maxLifeConn (fst gw0))
                                  (clock (snd gw0)) (activeConn (fst gw0))\<rparr>,
        (snd d)
          \<lparr>heap := (heap (snd gw0))
             (nextAddr (snd gw0) :=
                \<lparr>md = MetadataFromHeaders K (headers (fst gw0) @ reflectHeaders (fst gw0)),
                 clientConn = cc,
                 rheaders = headers (fst gw0) @ reflectHeaders (fst gw0),
                 protos = None\<rparr>),
            nextAddr := Suc (nextAddr (snd gw0))\<rparr>)"
      unfolding r d_def by (rule newResource_ok)
    have "dialCount (trace (snd d)) = Suc (dialCount (trace (snd gw)))"
      unfolding d_def using dial_ok_dialCount [of K target plainText "fst gw0" "snd gw0" cc] Inr dc0
      by (simp add: d_def)
    then show ?thesis
      using Inr absent by (simp add: req hd wd addConnection_def filter_absent getConnection_def)
  qed
  show ?thesis
    using gone main unfolding Let_def gw0_def d_def r_def by (rule conjI)
qed

text \<open>The example client acquires \<^verbatim>\<open>down\<close>, which cannot be dialled, and acquires
  \<^verbatim>\<open>svcA\<close> again with a restart.\<close>

theorem GetResource_redial_witness:
  "\<not> healthyCached exCollab ''down'' exCached
   \<and> GetResource exCollab ''down'' True False exCached
       = (Inl (Error ''unreachable''), fst exCached,
          (snd exCached)\<lparr>trace := trace (snd exCached) @ [EvDial ''tcp'' ''down'' None []]\<rparr>)
   \<and> getConnection (activeConn (fst (snd (GetResource exCollab ''down'' True False exCached)))) ''down'' = None
   \<and> fst (GetResource exCollab ''svcA'' True True exCached) = Inr 1
   \<and> conn (activeConn (fst (snd (GetResource exCollab ''svcA'' True True exCached))))
       = [(''svcA'', \<lparr>resource = 1, expired = Some 600000000000\<rparr>)]
   \<and> heap (snd (snd (GetResource exCollab ''svcA'' True True exCached))) 1
       = \<lparr>md = [''b: 2''], clientConn = 1, rheaders = [''b: 2''], protos = None\<rparr>
   \<and> dialCount (trace (snd (snd (GetResource exCollab ''svcA'' True True exCached)))) = 2"
proof -
  have n: "\<not> healthyCached exCollab ''down'' exCached"
    by (simp add: exCached_eq healthyCached_def getConnection_def)
  have d1: "dial exCollab ''down'' True (fst exCached) (snd exCached)
            = (Inl (Error ''unreachable''),
               (snd exCached)\<lparr>trace := trace (snd exCached) @ [EvDial ''tcp'' ''down'' None []]\<rparr>)"
    by (simp add: exCached_eq dial_def dialCreds_def dialOpts_def exCollab_def Let_def)
  have g1: "getConnection (activeConn (fst exCached)) ''down'' = None"
    by (simp add: exCached_eq getConnection_def)
  have c2: "snd (CloseActiveConns ''svcA'' exCached)
            = ((fst exCached)\<lparr>activeConn := (activeConn (fst exCached))\<lparr>conn := []\<rparr>\<rparr>,
               (snd exCached)\<lparr>trace := trace (snd exCached) @ [EvClose 0]\<rparr>)"
    by (simp add: exCached_eq CloseActiveConns_def delete_def Let_def)
  have g2: "getConnection (activeConn (fst exCached)) ''svcA'' = Some 0"
    by (simp add: exCached_eq getConnection_def)
  have d2: "fst (dial exCollab ''svcA'' True
                ((fst exCached)\<lparr>activeConn := (activeConn (fst exCached))\<lparr>conn := []\<rparr>\<rparr>)
                ((snd exCached)\<lparr>trace := trace (snd exCached) @ [EvClose 0]\<rparr>)) = Inr 1"
    by (simp add: exCached_eq dial_def dialCreds_def dialOpts_def exCollab_def Let_def)
  have t1: "dialCount (trace (snd exCached)) = 1"
    by (simp add: exCached_eq dialCount_def)
  have e: "nextAddr (snd exCached) = 1" "clock (snd exCached) = 0"
    "maxLifeConn (fst exCached) = 600000000000" "headers (fst exCached) = [''b: 2'']"
    "reflectHeaders (fst exCached) = []"
    by (simp_all add: exCached_eq)
  have x: "expiry 0 600000000000 = Some 600000000000"
    by (simp add: expiry_def)
  have m: "MetadataFromHeaders exCollab [''b: 2''] = [''b: 2'']"
    by (simp add: exCollab_def)
  show ?thesis
    using n GetResource_redial [of False exCollab "''down''" exCached True]
      GetResource_redial [of True exCollab "''svcA''" exCached True]
    by (simp add: Let_def g1 d1 g2 c2 d2 t1 e x m)
qed

subsection \<open>Construction\<close>

text \<open>
  C3. At construction the max lifetime is 10 (minutes) and the sweep interval 3 (seconds)
  unless the environment gives an integer; the sweep is started if and only if both are
  positive, and then the client's max lifetime is that many minutes and the sweep's
  interval that many seconds; when either is not positive the client's max lifetime is zero
  and no sweep is started, and this stays so after every run of calls, in which a sweep pass
  changes nothing.
\<close>

theorem NewClient_config:
  "let maxLife = (case Atoi (getenv ''MAX_LIFE_CONN'') of Some val \<Rightarrow> val | None \<Rightarrow> 10);
       tick = (case Atoi (getenv ''TICK_CLOSE_CONN'') of Some val \<Rightarrow> val | None \<Rightarrow> 3);
       g = NewClient getenv
   in (getenv ''MAX_LIFE_CONN'' = [] \<longrightarrow> maxLife = 10)
      \<and> (getenv ''TICK_CLOSE_CONN'' = [] \<longrightarrow> tick = 3)
      \<and> (gcInterval (activeConn g) \<noteq> None \<longleftrightarrow> 0 <s maxLife \<and> 0 <s tick)
      \<and> (0 <s maxLife \<and> 0 <s tick \<longrightarrow>
            maxLifeConn g = maxLife * Minute \<and> gcInterval (activeConn g) = Some (tick * Second))
      \<and> (\<not> (0 <s maxLife \<and> 0 <s tick) \<longrightarrow>
            maxLifeConn g = 0
            \<and> (\<forall>K cs w.
                  gcInterval (activeConn (fst (run K cs (g, w)))) = None
                  \<and> maxLifeConn (fst (run K cs (g, w))) = 0
                  \<and> step K Sweep (run K cs (g, w)) = run K cs (g, w)))"
proof -
  define maxLife where "maxLife = (case Atoi (getenv ''MAX_LIFE_CONN'') of Some val \<Rightarrow> val | None \<Rightarrow> 10)"
  define tick where "tick = (case Atoi (getenv ''TICK_CLOSE_CONN'') of Some val \<Rightarrow> val | None \<Rightarrow> 3)"
  define g where "g = NewClient getenv"
  have d1: "getenv ''MAX_LIFE_CONN'' = [] \<Longrightarrow> maxLife = 10"
    by (simp add: maxLife_def Atoi_def)
  have d2: "getenv ''TICK_CLOSE_CONN'' = [] \<Longrightarrow> tick = 3"
    by (simp add: tick_def Atoi_def)
  have on: "0 <s maxLife \<and> 0 <s tick \<Longrightarrow>
              maxLifeConn g = maxLife * Minute \<and> gcInterval (activeConn g) = Some (tick * Second)"
    by (simp add: g_def NewClient_def Let_def maxLife_def [symmetric] tick_def [symmetric] StartGC_def)
  have off: "\<not> (0 <s maxLife \<and> 0 <s tick) \<Longrightarrow> config g = (0, None)"
    by (auto simp: g_def NewClient_def Let_def maxLife_def [symmetric] tick_def [symmetric]
        config_def NewConnectionStore_def)
  have reach: "gcInterval (activeConn (fst (run K cs (g, w)))) = None
                  \<and> maxLifeConn (fst (run K cs (g, w))) = 0
                  \<and> step K Sweep (run K cs (g, w)) = run K cs (g, w)"
    if "\<not> (0 <s maxLife \<and> 0 <s tick)" for K :: "('a, 'b) collab" and cs w
  proof -
    have "config (fst (run K cs (g, w))) = (0, None)"
      using run_config [of K cs "(g, w)"] off [OF that] by simp
    then have "gcInterval (activeConn (fst (run K cs (g, w)))) = None"
      and "maxLifeConn (fst (run K cs (g, w))) = 0"
      by (simp_all add: config_def)
    then show ?thesis using step_Sweep_off [of "run K cs (g, w)" K] by blast
  qed
  have off0: "\<not> (0 <s maxLife \<and> 0 <s tick) \<Longrightarrow> maxLifeConn g = 0 \<and> gcInterval (activeConn g) = None"
    using off by (simp add: config_def)
  have iff: "gcInterval (activeConn g) \<noteq> None \<longleftrightarrow> 0 <s maxLife \<and> 0 <s tick"
    using on off0 by (cases "0 <s maxLife \<and> 0 <s tick") simp_all
  show ?thesis
    unfolding Let_def maxLife_def [symmetric] tick_def [symmetric] g_def [symmetric]
    using d1 d2 iff on off0 reach by blast
qed

text \<open>With \<^verbatim>\<open>MAX_LIFE_CONN=0\<close> no sweep is started and an acquired Resource is still cached
  after time has passed and a sweep pass; with no variable set the defaults apply.\<close>

theorem NewClient_config_witness:
  "Atoi (exEnv ''MAX_LIFE_CONN'') = Some 0
   \<and> Atoi (exEnv ''TICK_CLOSE_CONN'') = Some 5
   \<and> maxLifeConn (NewClient exEnv) = 0
   \<and> gcInterval (activeConn (NewClient exEnv)) = None
   \<and> gcInterval (activeConn (fst (run exCollab
         [CallGetResource ''svcA'' True False, Elapse 1000, Sweep] (NewClient exEnv, exWorld)))) = None
   \<and> getConnection (activeConn (fst (run exCollab
         [CallGetResource ''svcA'' True False, Elapse 1000, Sweep] (NewClient exEnv, exWorld)))) ''svcA''
       = Some 0
   \<and> maxLifeConn (NewClient (\<lambda>v. [])) = 10 * Minute
   \<and> gcInterval (activeConn (NewClient (\<lambda>v. []))) = Some (3 * Second)"
proof -
  have a: "Atoi (exEnv ''MAX_LIFE_CONN'') = Some 0" "Atoi (exEnv ''TICK_CLOSE_CONN'') = Some 5"
    by (simp_all add: exEnv_def Atoi_examples)
  have s: "\<not> (0::64 word) <s 0" "(0::64 word) <s 5" "(0::64 word) <s 10" "(0::64 word) <s 3"
    by (simp_all add: word_sless_alt)
  have r: "getConnection (activeConn (fst (run exCollab
         [CallGetResource ''svcA'' True False, Elapse 1000, Sweep] (NewClient exEnv, exWorld)))) ''svcA''
       = Some 0"
    by (simp add: run_def NewClient_exEnv GetResource_def getConnection_def newResource_def dial_def
        dialCreds_def dialOpts_def exCollab_def exWorld_def addConnection_def expiry_def Let_def
        sweep_def)
  have e: "exEnv ''MAX_LIFE_CONN'' = ''0''" "exEnv ''TICK_CLOSE_CONN'' = ''5''"
    by (simp_all add: exEnv_def)
  have off: "maxLifeConn (NewClient exEnv) = 0
     \<and> gcInterval (activeConn (NewClient exEnv)) = None
     \<and> gcInterval (activeConn (fst (run exCollab
         [CallGetResource ''svcA'' True False, Elapse 1000, Sweep] (NewClient exEnv, exWorld)))) = None"
    using NewClient_config [where ?'a = "string list" and ?'b = nat, of exEnv] s
    by (simp add: Let_def e Atoi_examples del: step.simps)
  have on: "maxLifeConn (NewClient (\<lambda>v. [])) = 10 * Minute
     \<and> gcInterval (activeConn (NewClient (\<lambda>v. []))) = Some (3 * Second)"
    using NewClient_config [of "\<lambda>v. []"] s by (simp add: Let_def Atoi_examples del: step.simps)
  show ?thesis
    using a r off on by simp
qed

subsection \<open>Descriptor sets\<close>

text \<open>
  C4 (as amended). For every call of \<^verbatim>\<open>GetResourceWithProto\<close> that acquires a Resource:
  if the supplied descriptor set is deep-equal to the set the Resource records, the call
  returns success without calling \<^verbatim>\<open>AddProtos\<close>; otherwise it calls \<^verbatim>\<open>AddProtos\<close> once and
  returns its error. After a call that returned no error, a second call with the same set
  that reuses the same cached Resource calls \<^verbatim>\<open>AddProtos\<close> not at all: the two calls
  together call it once when the set differed from the recorded one before the first call,
  and never when it was equal.
\<close>

theorem GetResourceWithProto_persist:
  assumes "GetResource K target plainText isRestartConn gw = (Inr a, g1, w1)"
  shows "let r = GetResourceWithProto K target plainText isRestartConn ps gw in
           (DeepEqual (protos (heap w1 a)) ps \<longrightarrow> r = ((Some a, None), g1, w1))
           \<and> (\<not> DeepEqual (protos (heap w1 a)) ps \<longrightarrow>
                 r = ((Some a, fst (AddProtos K a ps w1)), g1, snd (AddProtos K a ps w1)))
           \<and> filter isAddProtos (trace (snd (snd r)))
               = filter isAddProtos (trace (snd gw))
                 @ (if DeepEqual (protos (heap w1 a)) ps then [] else [EvAddProtos a ps])
           \<and> (\<forall>plainText'.
                 snd (fst r) = None
                 \<and> getConnection (activeConn (fst (snd r))) target = Some a
                 \<and> isValid K (snd (snd r)) (heap (snd (snd r)) a) \<longrightarrow>
                 fst (GetResourceWithProto K target plainText' False ps (snd r)) = (Some a, None)
                 \<and> trace (snd (snd (GetResourceWithProto K target plainText' False ps (snd r))))
                     = trace (snd (snd r)))"
proof -
  define r where "r = GetResourceWithProto K target plainText isRestartConn ps gw"
  have f: "filter isAddProtos (trace w1) = filter isAddProtos (trace (snd gw))"
    using GetResource_filter [of isAddProtos plainText target K isRestartConn gw] assms by simp
  have eq: "DeepEqual (protos (heap w1 a)) ps \<Longrightarrow> r = ((Some a, None), g1, w1)"
    using assms by (simp add: r_def GetResourceWithProto_def)
  have ne: "\<not> DeepEqual (protos (heap w1 a)) ps \<Longrightarrow>
              r = ((Some a, fst (AddProtos K a ps w1)), g1, snd (AddProtos K a ps w1))"
    using assms by (simp add: r_def GetResourceWithProto_def Let_def)
  have tr: "filter isAddProtos (trace (snd (snd r)))
               = filter isAddProtos (trace (snd gw))
                 @ (if DeepEqual (protos (heap w1 a)) ps then [] else [EvAddProtos a ps])"
    using eq ne f by (cases "DeepEqual (protos (heap w1 a)) ps") (simp_all add: AddProtos_trace)
  have rec: "snd (fst r) = None \<Longrightarrow> protos (heap (snd (snd r)) a) = ps"
    using eq ne by (cases "DeepEqual (protos (heap w1 a)) ps") (auto simp: DeepEqual_eq AddProtos_ok)
  have again: "fst (GetResourceWithProto K target plainText' False ps (snd r)) = (Some a, None)
                 \<and> trace (snd (snd (GetResourceWithProto K target plainText' False ps (snd r))))
                     = trace (snd (snd r))"
    if "snd (fst r) = None" "getConnection (activeConn (fst (snd r))) target = Some a"
       "isValid K (snd (snd r)) (heap (snd (snd r)) a)" for plainText'
    using that rec by (simp add: GetResourceWithProto_def GetResource_def DeepEqual_eq)
  show ?thesis
    unfolding Let_def r_def [symmetric] using eq ne tr again by blast
qed

text \<open>The example client acquires \<^verbatim>\<open>svcA\<close> twice with the same non-empty descriptor set:
  one call of \<^verbatim>\<open>AddProtos\<close> in all.\<close>

theorem GetResourceWithProto_persist_witness:
  "fst (GetResourceWithProto exCollab ''svcA'' True False exProtos exCached) = (Some 0, None)
   \<and> filter isAddProtos (trace (snd (snd (GetResourceWithProto exCollab ''svcA'' True False exProtos exCached))))
       = [EvAddProtos 0 exProtos]
   \<and> fst (GetResourceWithProto exCollab ''svcA'' True False exProtos
            (snd (GetResourceWithProto exCollab ''svcA'' True False exProtos exCached)))
       = (Some 0, None)
   \<and> filter isAddProtos (trace (snd (snd (GetResourceWithProto exCollab ''svcA'' True False exProtos
            (snd (GetResourceWithProto exCollab ''svcA'' True False exProtos exCached))))))
       = [EvAddProtos 0 exProtos]"
proof -
  define w1 where "w1 = (snd exCached)\<lparr>heap := (heap (snd exCached))
         (0 := \<lparr>md = [''a: 1''], clientConn = 0, rheaders = [''b: 2''], protos = None\<rparr>)\<rparr>"
  have h: "GetResource exCollab ''svcA'' True False exCached = (Inr 0, fst exCached, w1)"
    by (simp add: exCached_hit w1_def)
  have ne: "\<not> DeepEqual (protos (heap w1 0)) exProtos"
    by (simp add: w1_def DeepEqual_def exProtos_def)
  have ap: "AddProtos exCollab 0 exProtos w1 =
     (None, w1\<lparr>trace := trace w1 @ [EvAddProtos 0 exProtos],
               heap := (heap w1)(0 := (heap w1 0)\<lparr>protos := exProtos\<rparr>)\<rparr>)"
    using ne by (simp add: AddProtos_def Let_def exCollab_def)
  have t: "filter isAddProtos (trace (snd exCached)) = []" "trace w1 = trace (snd exCached)"
    by (simp_all add: exCached_eq w1_def)
  have g: "getConnection (activeConn (fst exCached)) ''svcA'' = Some 0"
    by (simp add: exCached_eq getConnection_def)
  have v: "isValid exCollab
       (w1\<lparr>trace := trace w1 @ [EvAddProtos 0 exProtos],
           heap := (heap w1)(0 := (heap w1 0)\<lparr>protos := exProtos\<rparr>)\<rparr>)
       ((heap w1 0)\<lparr>protos := exProtos\<rparr>)"
    by (simp add: isValid_def exCollab_def w1_def exCached_eq)
  define r where "r = GetResourceWithProto exCollab ''svcA'' True False exProtos exCached"
  note T = GetResourceWithProto_persist [OF h, of exProtos, unfolded Let_def, folded r_def]
  from T ne have "r = ((Some 0, fst (AddProtos exCollab 0 exProtos w1)), fst exCached,
                       snd (AddProtos exCollab 0 exProtos w1))"
    by blast
  then have r: "r = ((Some 0, None), fst exCached,
                     w1\<lparr>trace := trace w1 @ [EvAddProtos 0 exProtos],
                        heap := (heap w1)(0 := (heap w1 0)\<lparr>protos := exProtos\<rparr>)\<rparr>)"
    by (simp add: ap)
  from T [THEN conjunct2, THEN conjunct2, THEN conjunct1]
  have c1: "filter isAddProtos (trace (snd (snd r))) = [EvAddProtos 0 exProtos]"
    by (simp add: t ne)
  have hyp: "snd (fst r) = None \<and> getConnection (activeConn (fst (snd r))) ''svcA'' = Some 0
             \<and> isValid exCollab (snd (snd r)) (heap (snd (snd r)) 0)"
    using g v by (simp add: r)
  from T hyp have c2: "fst (GetResourceWithProto exCollab ''svcA'' True False exProtos (snd r)) = (Some 0, None)
     \<and> trace (snd (snd (GetResourceWithProto exCollab ''svcA'' True False exProtos (snd r))))
         = trace (snd (snd r))"
    by blast
  show ?thesis
    unfolding r_def [symmetric] using r c1 c2 by simp
qed

text \<open>C4 as stated fails: the example client acquires \<^verbatim>\<open>svcA\<close> twice with the nil
  descriptor set, which is what its cached Resource records; the two calls call
  \<^verbatim>\<open>AddProtos\<close> not once but never.\<close>

theorem GetResourceWithProto_twice_counterexample:
  "length (filter isAddProtos (trace (snd (run exCollab
       [CallGetResourceWithProto ''svcA'' True False None,
        CallGetResourceWithProto ''svcA'' True False None] exCached))))
     \<noteq> Suc (length (filter isAddProtos (trace (snd exCached))))"
proof -
  have 1: "GetResourceWithProto exCollab ''svcA'' True False None exCached =
     ((Some 0, None), fst exCached,
      (snd exCached)\<lparr>heap := (heap (snd exCached))
         (0 := \<lparr>md = [''a: 1''], clientConn = 0, rheaders = [''b: 2''], protos = None\<rparr>)\<rparr>)"
    by (simp add: GetResourceWithProto_def exCached_hit DeepEqual_def)
  have 2: "trace (snd (snd (GetResourceWithProto exCollab ''svcA'' True False None
             (fst exCached,
              (snd exCached)\<lparr>heap := (heap (snd exCached))
                (0 := \<lparr>md = [''a: 1''], clientConn = 0, rheaders = [''b: 2''], protos = None\<rparr>)\<rparr>))))
           = trace (snd exCached)"
    by (simp add: exCached_eq GetResourceWithProto_def GetResource_def getConnection_def
        isValid_def exCollab_def DeepEqual_def)
  show ?thesis
    by (simp add: run_def 1 2)
qed

subsection \<open>Invocation\<close>

text \<open>
  C5. For every call of \<^verbatim>\<open>Client.Invoke\<close>: it acquires the Resource of the target with
  \<^verbatim>\<open>isRestartConn = false\<close>; when the acquisition fails it returns that error with an empty
  reply and calls \<^verbatim>\<open>Resource.Invoke\<close> not at all; otherwise it calls \<^verbatim>\<open>Resource.Invoke\<close>
  once, on the acquired Resource, with the method name \<^verbatim>\<open>service + "." + method\<close>, and
  returns what that returns.
\<close>

theorem Invoke_delegates:
  "case GetResource K target True False gw of
     (Inl err, gw1) \<Rightarrow>
        Invoke K target service method data gw = (([], 0, Some err), gw1)
        \<and> filter isInvoke (trace (snd (snd (Invoke K target service method data gw))))
            = filter isInvoke (trace (snd gw))
   | (Inr a, g1, w1) \<Rightarrow>
        fst (Invoke K target service method data gw)
          = ResourceInvoke K (trace w1) (heap w1 a) (service @ ''.'' @ method) data
        \<and> fst (snd (Invoke K target service method data gw)) = g1
        \<and> snd (snd (Invoke K target service method data gw))
            = w1\<lparr>trace := trace w1 @ [EvInvoke a (service @ ''.'' @ method) data]\<rparr>
        \<and> filter isInvoke (trace (snd (snd (Invoke K target service method data gw))))
            = filter isInvoke (trace (snd gw)) @ [EvInvoke a (service @ ''.'' @ method) data]"
proof -
  have f: "filter isInvoke (trace (snd (snd (GetResource K target True False gw))))
             = filter isInvoke (trace (snd gw))"
    by (rule GetResource_filter) simp_all
  show ?thesis
  proof (cases "GetResource K target True False gw")
    case (fields res g1 w1)
    with f show ?thesis by (cases res) (simp_all add: Invoke_def)
  qed
qed

text \<open>The example client invokes \<^verbatim>\<open>pkg.Greeter\<close>, \<^verbatim>\<open>Hello\<close> on \<^verbatim>\<open>svcA\<close> and on
  \<^verbatim>\<open>down\<close>.\<close>

theorem Invoke_delegates_witness:
  "Invoke exCollab ''svcA'' ''pkg.Greeter'' ''Hello'' ''{}'' exCached
     = ((''{}'', 0, None), fst exCached,
        (snd exCached)\<lparr>heap := (heap (snd exCached))
           (0 := \<lparr>md = [''a: 1''], clientConn = 0, rheaders = [''b: 2''], protos = None\<rparr>),
         trace := trace (snd exCached) @ [EvInvoke 0 ''pkg.Greeter.Hello'' ''{}'']\<rparr>)
   \<and> fst (Invoke exCollab ''down'' ''pkg.Greeter'' ''Hello'' ''{}'' exCached)
       = ([], 0, Some (Error ''unreachable''))
   \<and> filter isInvoke (trace (snd (snd (Invoke exCollab ''down'' ''pkg.Greeter'' ''Hello'' ''{}'' exCached))))
       = []"
proof -
  have d: "GetResource exCollab ''down'' True False exCached =
      (Inl (Error ''unreachable''), fst exCached,
       (snd exCached)\<lparr>trace := trace (snd exCached) @ [EvDial ''tcp'' ''down'' None []]\<rparr>)"
    by (simp add: exCached_eq GetResource_def getConnection_def newResource_def dial_def
        dialCreds_def dialOpts_def exCollab_def Let_def)
  have r: "ResourceInvoke exCollab tr x ''pkg.Greeter.Hello'' ''{}'' = (''{}'', 0, None)" for tr x
    by (simp add: exCollab_def)
  have t: "filter isInvoke (trace (snd exCached)) = []"
    by (simp add: exCached_eq)
  show ?thesis
    using Invoke_delegates [where K = exCollab and target = "''svcA''" and gw = exCached
          and service = "''pkg.Greeter''" and data = "''{}''", of "''Hello''"]
      Invoke_delegates [where K = exCollab and target = "''down''" and gw = exCached
          and service = "''pkg.Greeter''" and data = "''{}''", of "''Hello''"]
    by (simp add: exCached_hit d r t prod_eq_iff)
qed

subsection \<open>Closing\<close>

text \<open>
  C6. For every call of \<^verbatim>\<open>CloseActiveConns\<close>: the error returned is nil; when the host is
  the string \<^verbatim>\<open>all\<close> the cache is empty afterwards; otherwise exactly the entries of
  the host are gone and the others stay; and when the host is not cached (and is not
  \<^verbatim>\<open>all\<close>) nothing changes.
\<close>

theorem CloseActiveConns_spec:
  "fst (CloseActiveConns host gw) = None
   \<and> (host = ''all'' \<longrightarrow> conn (activeConn (fst (snd (CloseActiveConns host gw)))) = [])
   \<and> (host \<noteq> ''all'' \<longrightarrow>
        conn (activeConn (fst (snd (CloseActiveConns host gw))))
          = filter (\<lambda>kv. fst kv \<noteq> host) (conn (activeConn (fst gw))))
   \<and> (host \<noteq> ''all'' \<and> getConnection (activeConn (fst gw)) host = None \<longrightarrow>
        snd (CloseActiveConns host gw) = gw)"
  by (auto simp: CloseActiveConns_def Let_def getAllConn_def fold_delete_all delete_conn
      getConnection_def delete_absent)

text \<open>The example client closes \<^verbatim>\<open>all\<close>, \<^verbatim>\<open>svcA\<close> (cached) and \<^verbatim>\<open>svcB\<close> (not cached).\<close>

theorem CloseActiveConns_witness:
  "fst (CloseActiveConns ''all'' exCached) = None
   \<and> conn (activeConn (fst (snd (CloseActiveConns ''all'' exCached)))) = []
   \<and> fst (CloseActiveConns ''svcA'' exCached) = None
   \<and> conn (activeConn (fst (snd (CloseActiveConns ''svcA'' exCached)))) = []
   \<and> getConnection (activeConn (fst exCached)) ''svcB'' = None
   \<and> snd (CloseActiveConns ''svcB'' exCached) = exCached"
proof -
  have a: "getConnection (activeConn (fst exCached)) ''svcB'' = None"
    by (simp add: exCached_eq getConnection_def)
  show ?thesis
    using a CloseActiveConns_spec [of "''all''" exCached]
      CloseActiveConns_spec [of "''svcA''" exCached]
      CloseActiveConns_spec [of "''svcB''" exCached]
    by (simp add: exCached_eq)
qed

subsection \<open>What reuse leaves alone\<close>

text \<open>
  C8. On the reuse path of \<^verbatim>\<open>GetResource\<close> (\<^verbatim>\<open>isRestartConn = false\<close>, the cached Resource
  valid) the cached Resource changes in its headers only: its metadata object, its
  connection handle and its recorded descriptor set are what they were, so the metadata
  object is not rebuilt from the new headers; no other Resource changes.
\<close>

theorem GetResource_reuse_frame:
  assumes "getConnection (activeConn (fst gw)) target = Some a"
      and "isValid K (snd gw) (heap (snd gw) a)"
  shows "heap (snd (snd (GetResource K target plainText False gw))) a
           = (heap (snd gw) a)\<lparr>rheaders := headers (fst gw) @ reflectHeaders (fst gw)\<rparr>
         \<and> md (heap (snd (snd (GetResource K target plainText False gw))) a) = md (heap (snd gw) a)
         \<and> clientConn (heap (snd (snd (GetResource K target plainText False gw))) a)
             = clientConn (heap (snd gw) a)
         \<and> protos (heap (snd (snd (GetResource K target plainText False gw))) a)
             = protos (heap (snd gw) a)
         \<and> (\<forall>b. b \<noteq> a \<longrightarrow>
               heap (snd (snd (GetResource K target plainText False gw))) b = heap (snd gw) b)"
  using assms by (simp add: GetResource_def)

text \<open>In the example the metadata object on reuse is still the one built from \<^verbatim>\<open>a: 1\<close>,
  while the headers are \<^verbatim>\<open>b: 2\<close>.\<close>

theorem GetResource_reuse_frame_witness:
  "getConnection (activeConn (fst exCached)) ''svcA'' = Some 0
   \<and> isValid exCollab (snd exCached) (heap (snd exCached) 0)
   \<and> rheaders (heap (snd (snd (GetResource exCollab ''svcA'' True False exCached))) 0) = [''b: 2'']
   \<and> md (heap (snd (snd (GetResource exCollab ''svcA'' True False exCached))) 0) = [''a: 1'']
   \<and> MetadataFromHeaders exCollab (headers (fst exCached) @ reflectHeaders (fst exCached)) = [''b: 2'']
   \<and> clientConn (heap (snd (snd (GetResource exCollab ''svcA'' True False exCached))) 0) = 0
   \<and> protos (heap (snd (snd (GetResource exCollab ''svcA'' True False exCached))) 0) = None"
proof -
  have h1: "getConnection (activeConn (fst exCached)) ''svcA'' = Some 0"
    by (simp add: exCached_eq getConnection_def)
  have h2: "isValid exCollab (snd exCached) (heap (snd exCached) 0)"
    by (simp add: exCached_eq isValid_def exCollab_def)
  have m: "MetadataFromHeaders exCollab (headers (fst exCached) @ reflectHeaders (fst exCached)) = [''b: 2'']"
    by (simp add: exCached_eq exCollab_def)
  show ?thesis
    using h1 h2 m GetResource_reuse_frame [OF h1 h2, of True] by (simp add: exCached_eq)
qed

subsection \<open>Invocation is plain-text\<close>

text \<open>
  C10. \<^verbatim>\<open>Client.Invoke\<close> acquires with \<^verbatim>\<open>plainText = true\<close>: it adds no dial with
  transport credentials to the trace, and the TLS material of the client (insecure flag, CA
  certificate, client certificate and key, server name) and the credential functions have
  no influence on what it returns and does.
\<close>

theorem Invoke_plainText:
  "filter dialedWithCreds (trace (snd (snd (Invoke K target service method data (g, w)))))
     = filter dialedWithCreds (trace w)
   \<and> Invoke (K\<lparr>ClientTransportCredentials := f, OverrideServerName := h\<rparr>) target service method data
        (withTLS i ca ce k sn g, w)
       = (fst (Invoke K target service method data (g, w)),
          withTLS i ca ce k sn (fst (snd (Invoke K target service method data (g, w)))),
          snd (snd (Invoke K target service method data (g, w))))"
proof -
  have f: "filter dialedWithCreds (trace (snd (snd (GetResource K target True False (g, w)))))
             = filter dialedWithCreds (trace w)"
    using GetResource_filter [of dialedWithCreds True target K False "(g, w)"] by simp
  obtain res g1 w1 where r: "GetResource K target True False (g, w) = (res, g1, w1)"
    by (cases "GetResource K target True False (g, w)")
  show ?thesis
    using f r by (cases res) (simp_all add: Invoke_def GetResource_plainText_withTLS)
qed

text \<open>The example client with TLS material invokes a method on \<^verbatim>\<open>svcB\<close>: the dial carries
  no credentials, although a dial that is not plain-text would.\<close>

theorem Invoke_plainText_witness:
  "trace (snd (snd (Invoke exCollab ''svcB'' ''pkg.Greeter'' ''Hello'' ''{}'' (exTLS, snd exCached))))
     = trace (snd exCached) @ [EvDial ''tcp'' ''svcB'' None [], EvInvoke 1 ''pkg.Greeter.Hello'' ''{}'']
   \<and> filter dialedWithCreds
        (trace (snd (snd (Invoke exCollab ''svcB'' ''pkg.Greeter'' ''Hello'' ''{}'' (exTLS, snd exCached)))))
       = []
   \<and> dialCreds exCollab False exTLS = Inr (Some 0)"
proof -
  have k: "exCollab\<lparr>ClientTransportCredentials := ClientTransportCredentials exCollab,
                    OverrideServerName := OverrideServerName exCollab\<rparr> = exCollab"
    by simp
  have p: "trace (snd (snd (Invoke exCollab ''svcB'' ''pkg.Greeter'' ''Hello'' ''{}'' exCached)))
            = trace (snd exCached) @ [EvDial ''tcp'' ''svcB'' None [], EvInvoke 1 ''pkg.Greeter.Hello'' ''{}'']"
    by (simp add: exCached_eq Invoke_def GetResource_def getConnection_def newResource_def dial_def
        dialCreds_def dialOpts_def exCollab_def Let_def)
  have t: "filter dialedWithCreds (trace (snd exCached)) = []"
    by (simp add: exCached_eq)
  have c: "dialCreds exCollab False exTLS = Inr (Some 0)"
    by (simp add: dialCreds_def exTLS_def withTLS_def exCollab_def)
  have i: "Invoke exCollab ''svcB'' ''pkg.Greeter'' ''Hello'' ''{}'' (exTLS, snd exCached)
        = (fst (Invoke exCollab ''svcB'' ''pkg.Greeter'' ''Hello'' ''{}'' exCached),
           withTLS True ''ca.pem'' ''cert.pem'' ''key.pem'' ''server''
             (fst (snd (Invoke exCollab ''svcB'' ''pkg.Greeter'' ''Hello'' ''{}'' exCached))),
           snd (snd (Invoke exCollab ''svcB'' ''pkg.Greeter'' ''Hello'' ''{}'' exCached)))"
    using Invoke_plainText [where K = exCollab and g = "fst exCached" and w = "snd exCached"
        and f = "ClientTransportCredentials exCollab" and h = "OverrideServerName exCollab"
        and i = True and ca = "''ca.pem''" and ce = "''cert.pem''" and k = "''key.pem''"
        and sn = "''server''" and target = "''svcB''" and service = "''pkg.Greeter''"
        and data = "''{}''", of "''Hello''"]
    by (simp add: k exTLS_def)
  show ?thesis
    using Invoke_plainText [where K = exCollab and g = "fst exCached" and w = "snd exCached"
        and f = "ClientTransportCredentials exCollab" and h = "OverrideServerName exCollab"
        and i = True and ca = "''ca.pem''" and ce = "''cert.pem''" and k = "''key.pem''"
        and sn = "''server''" and target = "''svcB''" and service = "''pkg.Greeter''"
        and data = "''{}''", of "''Hello''"]
    by (simp add: i p t c)
qed

end
